theory Spec2Isabelle
  imports Complex_Main
begin

section \<open>JavaScript values\<close>

text \<open>
  The layer parameter tables hold plain JavaScript data. Numbers are modelled as reals
  (no NaN, no rounding); an object is the list of its own properties in insertion order.
\<close>

datatype jsvalue =
    JUndefined
  | JNull
  | JBool bool
  | JNumber real
  | JString string
  | JArray "jsvalue list"
  | JObject "(string \<times> jsvalue) list"

text \<open>Truthiness, as \<^verbatim>\<open>||\<close> and \<^verbatim>\<open>&&\<close> test it.\<close>

fun truthy :: "jsvalue \<Rightarrow> bool" where
  "truthy JUndefined = False"
| "truthy JNull = False"
| "truthy (JBool b) = b"
| "truthy (JNumber x) = (x \<noteq> 0)"
| "truthy (JString s) = (s \<noteq> [])"
| "truthy (JArray _) = True"
| "truthy (JObject _) = True"

text \<open>
  A string-or-undefined value (\<open>None\<close> is \<^verbatim>\<open>undefined\<close>) is truthy when it is a
  non-empty string.
\<close>

fun truthyString :: "string option \<Rightarrow> bool" where
  "truthyString None = False"
| "truthyString (Some s) = (s \<noteq> [])"

datatype error = TypeError

section \<open>Layer types (part 001)\<close>

text \<open>
  The enum object \<^verbatim>\<open>LayerType\<close>, property by property. The key of the trace layer is
  written \<^verbatim>\<open>UAVTrace\<close> in the source.
\<close>

definition LayerType :: "(string \<times> string) list" where
  "LayerType =
    [(''BASE'', ''base''),
     (''GEOJSON'', ''geojson''),
     (''HEATMAP'', ''heatmap''),
     (''HEXGRID'', ''hexgrid''),
     (''OWN_LOCATION'', ''ownlocation''),
     (''UAVS'', ''uavs''),
     (''UAVTrace'', ''uavtrace''),
     (''UNTYPED'', ''untyped'')]"

text \<open>
  \<^verbatim>\<open>LayerType.K\<close> used as a computed property key \<^verbatim>\<open>[LayerType.K]\<close>: a property the
  enum does not have reads as \<^verbatim>\<open>undefined\<close>, whose key string is \<^verbatim>\<open>"undefined"\<close>.
\<close>

definition layerTypeKey :: "string \<Rightarrow> string" where
  "layerTypeKey k = (case map_of LayerType k of None \<Rightarrow> ''undefined'' | Some v \<Rightarrow> v)"

text \<open>\<^verbatim>\<open>LayerType.K\<close> read as a value where the enum has the property.\<close>

definition LayerType_UNTYPED :: string where
  "LayerType_UNTYPED = layerTypeKey ''UNTYPED''"

record layerProperties =
  props_label :: string
  props_icon :: string
  props_parameters :: "jsvalue option"

definition rgba :: "real \<Rightarrow> real \<Rightarrow> real \<Rightarrow> real \<Rightarrow> jsvalue" where
  "rgba r g b a =
    JObject [(''r'', JNumber r), (''g'', JNumber g), (''b'', JNumber b), (''a'', JNumber a)]"

text \<open>
  The table \<^verbatim>\<open>propertiesForLayerTypes_\<close>, in the order of the object literal. Its keys
  are computed from the enum, the trace layer's from \<^verbatim>\<open>LayerType.UAVTRACE\<close>. The icon is
  the name of the icon component; \<open>props_parameters = None\<close> is an entry with no
  \<^verbatim>\<open>parameters\<close> property.
\<close>

definition propertiesForLayerTypes :: "(string \<times> layerProperties) list" where
  "propertiesForLayerTypes =
    [(layerTypeKey ''BASE'',
        \<lparr>props_label = ''Base layer'', props_icon = ''Map'',
         props_parameters = Some (JObject [(''source'', JString ''osm'')])\<rparr>),
     (layerTypeKey ''GEOJSON'',
        \<lparr>props_label = ''GeoJSON layer'', props_icon = ''FileAttachment'',
         props_parameters = Some (JObject
           [(''data'', JObject []),
            (''strokeColor'', rgba 85 85 225 1),
            (''strokeWidth'', JNumber 2),
            (''fillColor'', rgba 170 170 225 0.5)])\<rparr>),
     (layerTypeKey ''HEXGRID'',
        \<lparr>props_label = ''HEX Grid layer'', props_icon = ''ImageGridOn'',
         props_parameters = Some (JObject
           [(''center'', JArray [JNumber 19.061951, JNumber 47.473340]),
            (''size'', JNumber 8),
            (''radius'', JNumber 0.0005)])\<rparr>),
     (layerTypeKey ''HEATMAP'',
        \<lparr>props_label = ''Heatmap'', props_icon = ''ActionTrackChanges'',
         props_parameters = Some (JObject
           [(''subscriptions'', JArray []),
            (''minHue'', JNumber 100),
            (''maxHue'', JNumber 0),
            (''minValue'', JNumber 0),
            (''maxValue'', JNumber 0),
            (''autoScale'', JBool True),
            (''maxPoints'', JNumber 1000),
            (''unit'', JString [])])\<rparr>),
     (layerTypeKey ''OWN_LOCATION'',
        \<lparr>props_label = ''Own location'', props_icon = ''MyLocation'',
         props_parameters = None\<rparr>),
     (layerTypeKey ''UAVS'',
        \<lparr>props_label = ''UAVs'', props_icon = ''Flight'',
         props_parameters = Some (JObject [(''colorPredicates'', JObject [])])\<rparr>),
     (layerTypeKey ''UAVTRACE'',
        \<lparr>props_label = ''UAV Trace'', props_icon = ''ActionTimeline'',
         props_parameters = Some (JObject
           [(''trailLength'', JNumber 10),
            (''trailWidth'', JNumber 2),
            (''trailColor'', rgba 0 0 0 1)])\<rparr>),
     (layerTypeKey ''UNTYPED'',
        \<lparr>props_label = ''Untyped layer'', props_icon = ''ActionHelpOutline'',
         props_parameters = None\<rparr>)]"

text \<open>
  Property names every object inherits from \<^verbatim>\<open>Object.prototype\<close>: reading one of them
  from the table gives a value that is not \<^verbatim>\<open>undefined\<close> and has no own
  \<^verbatim>\<open>parameters\<close> property.
\<close>

definition objectPrototypeKeys :: "string list" where
  "objectPrototypeKeys =
    [''constructor'', ''hasOwnProperty'', ''isPrototypeOf'', ''propertyIsEnumerable'',
     ''toLocaleString'', ''toString'', ''valueOf'', ''__proto__'',
     ''__defineGetter__'', ''__defineSetter__'', ''__lookupGetter__'', ''__lookupSetter__'']"

text \<open>\<^verbatim>\<open>_.cloneDeep\<close>: values carry no identity here, so the copy is the value.\<close>

definition cloneDeep :: "jsvalue \<Rightarrow> jsvalue" where
  "cloneDeep v = v"

text \<open>
  \<^verbatim>\<open>defaultParametersForLayerType\<close>: \<^verbatim>\<open>props.hasOwnProperty\<close> on an
  \<^verbatim>\<open>undefined\<close> \<^verbatim>\<open>props\<close> throws a TypeError.
\<close>

definition defaultParametersForLayerType :: "string \<Rightarrow> error + jsvalue" where
  "defaultParametersForLayerType layerType =
    (case map_of propertiesForLayerTypes layerType of
       Some props \<Rightarrow>
         Inr (cloneDeep (case props_parameters props of Some p \<Rightarrow> p | None \<Rightarrow> JObject []))
     | None \<Rightarrow>
         if layerType \<in> set objectPrototypeKeys then Inr (cloneDeep (JObject []))
         else Inl TypeError)"

record layer =
  layer_type :: string
  layer_label :: string
  layer_visible :: bool
  layer_parameters :: jsvalue

text \<open>
  \<^verbatim>\<open>createNewLayer(layerType, name, parameters)\<close>. The layer type is a string or
  \<^verbatim>\<open>undefined\<close> (\<open>None\<close>); the defaults are computed only when \<^verbatim>\<open>parameters\<close> is
  falsey.
\<close>

definition createNewLayer :: "string option \<Rightarrow> string \<Rightarrow> jsvalue \<Rightarrow> error + layer" where
  "createNewLayer layerType name parameters =
    (let effectiveLayerType =
           (case layerType of
              None \<Rightarrow> LayerType_UNTYPED
            | Some t \<Rightarrow> if t \<noteq> [] then t else LayerType_UNTYPED)
     in if truthy parameters
        then Inr \<lparr>layer_type = effectiveLayerType, layer_label = name,
                  layer_visible = (effectiveLayerType \<noteq> LayerType_UNTYPED),
                  layer_parameters = parameters\<rparr>
        else (case defaultParametersForLayerType effectiveLayerType of
                Inl e \<Rightarrow> Inl e
              | Inr defaults \<Rightarrow>
                  Inr \<lparr>layer_type = effectiveLayerType, layer_label = name,
                       layer_visible = (effectiveLayerType \<noteq> LayerType_UNTYPED),
                       layer_parameters = defaults\<rparr>))"

section \<open>The UAV feature of the map (part 002, UAVFeature)\<close>

text \<open>
  JavaScript's \<^verbatim>\<open>%\<close> on numbers keeps the sign of the dividend: the quotient is
  truncated towards zero.
\<close>

definition js_trunc :: "real \<Rightarrow> int" where
  "js_trunc x = (if x < 0 then \<lceil>x\<rceil> else \<lfloor>x\<rfloor>)"

definition js_rem :: "real \<Rightarrow> real \<Rightarrow> real" where
  "js_rem x y = x - y * of_int (js_trunc (x / y))"

text \<open>
  An \<^verbatim>\<open>Icon\<close> is an object that \<^verbatim>\<open>setRotation\<close> mutates after a \<^verbatim>\<open>Style\<close> has
  taken a reference to it, so icons live in a store and are named by their address (the
  index in the store). A \<^verbatim>\<open>Style\<close> is never mutated and is a value: an image style holds
  the address of its icon.
\<close>

record icon =
  icon_rotateWithView :: bool
  icon_rotation :: real
  icon_snapToPixel :: bool
  icon_src :: string

record textStyle =
  text_font :: string
  text_offsetY :: int
  text_text :: string
  text_textAlign :: string

datatype style = ImageStyle nat | TextStyle textStyle

text \<open>
  The fields of a \<^verbatim>\<open>UAVFeature\<close>; \<open>priv_x\<close> is the source's \<^verbatim>\<open>_x\<close>. \<open>None\<close> is
  \<^verbatim>\<open>undefined\<close>. \<open>feature_style\<close> is what \<^verbatim>\<open>setStyle\<close> stored, \<open>feature_icons\<close> the
  store of the icons created so far.
\<close>

record 'g UAVFeature =
  geometryOrProperties :: 'g
  priv_selected :: bool
  priv_color :: string
  priv_heading :: real
  feature_uavId :: "string option"
  priv_iconImage :: "nat option"
  priv_selectionImage :: "nat option"
  feature_style :: "style list option"
  feature_icons :: "icon list"

definition headingToRotation :: "real option \<Rightarrow> 'g UAVFeature \<Rightarrow> real" where
  "headingToRotation heading this =
    (let heading = (case heading of None \<Rightarrow> priv_heading this | Some h \<Rightarrow> h)
     in (js_rem heading 360 * pi) / 180)"

definition newIcon :: "icon \<Rightarrow> 'g UAVFeature \<Rightarrow> nat \<times> 'g UAVFeature" where
  "newIcon ic this =
    (length (feature_icons this), this\<lparr>feature_icons := feature_icons this @ [ic]\<rparr>)"

definition setRotation :: "nat \<Rightarrow> real \<Rightarrow> icon list \<Rightarrow> icon list" where
  "setRotation a r icons =
    (if a < length icons then icons[a := (icons ! a)\<lparr>icon_rotation := r\<rparr>] else icons)"

definition setupStyle :: "'g UAVFeature \<Rightarrow> 'g UAVFeature" where
  "setupStyle this =
    (let styles = [];
         (iconImage, this) = newIcon
           \<lparr>icon_rotateWithView = True,
            icon_rotation = headingToRotation None this,
            icon_snapToPixel = False,
            icon_src = ''assets/drone.x.'' @ priv_color this @ ''.32x32.png''\<rparr> this;
         this = this\<lparr>priv_iconImage := Some iconImage\<rparr>;
         iconStyle = ImageStyle iconImage;
         styles = styles @ [iconStyle];
         (selectionImage, this) = newIcon
           \<lparr>icon_rotateWithView = True,
            icon_rotation = headingToRotation None this,
            icon_snapToPixel = False,
            icon_src = ''assets/selection_glow.png''\<rparr> this;
         this = this\<lparr>priv_selectionImage := Some selectionImage\<rparr>;
         selectionStyle = ImageStyle selectionImage;
         styles = (if priv_selected this then selectionStyle # styles else styles);
         labelStyle = TextStyle
           \<lparr>text_font = ''12px sans-serif'',
            text_offsetY = 24,
            text_text =
              (case feature_uavId this of
                 None \<Rightarrow> ''undefined''
               | Some u \<Rightarrow> if u \<noteq> [] then u else ''undefined''),
            text_textAlign = ''center''\<rparr>;
         styles = styles @ [labelStyle]
     in this\<lparr>feature_style := Some styles\<rparr>)"

definition newUAVFeature :: "string option \<Rightarrow> 'g \<Rightarrow> 'g UAVFeature" where
  "newUAVFeature uavId g =
    setupStyle
      \<lparr>geometryOrProperties = g,
       priv_selected = False,
       priv_color = [],
       priv_heading = 0,
       feature_uavId = uavId,
       priv_iconImage = None,
       priv_selectionImage = None,
       feature_style = None,
       feature_icons = []\<rparr>"

text \<open>
  The setters. \<^verbatim>\<open>set heading\<close> rotates the two icons in place when \<^verbatim>\<open>_iconImage\<close> is
  set; an \<^verbatim>\<open>undefined\<close> \<^verbatim>\<open>_selectionImage\<close> there is a TypeError.
\<close>

definition set_heading :: "real \<Rightarrow> 'g UAVFeature \<Rightarrow> error + 'g UAVFeature" where
  "set_heading v this =
    (if priv_heading this = v then Inr this
     else
       let this = this\<lparr>priv_heading := v\<rparr> in
       (case priv_iconImage this of
          None \<Rightarrow> Inr this
        | Some i \<Rightarrow>
            let rotation = headingToRotation None this;
                this = this\<lparr>feature_icons := setRotation i rotation (feature_icons this)\<rparr>
            in (case priv_selectionImage this of
                  None \<Rightarrow> Inl TypeError
                | Some j \<Rightarrow>
                    Inr (this\<lparr>feature_icons :=
                           setRotation j rotation (feature_icons this)\<rparr>))))"

definition set_selected :: "bool \<Rightarrow> 'g UAVFeature \<Rightarrow> 'g UAVFeature" where
  "set_selected v this =
    (if priv_selected this = v then this
     else setupStyle (this\<lparr>priv_selected := v\<rparr>))"

definition set_color :: "string \<Rightarrow> 'g UAVFeature \<Rightarrow> 'g UAVFeature" where
  "set_color v this =
    (if priv_color this = v then this
     else setupStyle (this\<lparr>priv_color := v\<rparr>))"

text \<open>
  Both icon fields are set and name icons of the store: the state of every feature after
  its constructor.
\<close>

definition iconsSet :: "'g UAVFeature \<Rightarrow> bool" where
  "iconsSet this =
    (case priv_iconImage this of
       None \<Rightarrow> False
     | Some i \<Rightarrow>
         (case priv_selectionImage this of
            None \<Rightarrow> False
          | Some j \<Rightarrow> i < length (feature_icons this) \<and> j < length (feature_icons this)))"

section \<open>The GeoJSON layer settings (part 002, GeoJSONLayerSettingsPresentation)\<close>

record notification =
  message :: string
  semantics :: string

text \<open>
  The component's state holds the two text fields. Its props \<^verbatim>\<open>setLayerParameter\<close> and
  \<^verbatim>\<open>showMessage\<close> act on a store \<open>'s\<close>. \<^verbatim>\<open>toNumber\<close> (lodash) and \<^verbatim>\<open>JSON.parse\<close>
  are library functions and are parameters; \<^verbatim>\<open>JSON.parse\<close> gives \<open>None\<close> where it
  throws.
\<close>

record 'w settingsState =
  state_strokeWidth :: 'w
  state_data :: string

record ('v, 's) settingsProps =
  setLayerParameter :: "string \<Rightarrow> 'v \<Rightarrow> 's \<Rightarrow> 's"
  showMessage :: "notification \<Rightarrow> 's \<Rightarrow> 's"

definition handleClick ::
  "('w \<Rightarrow> 'v) \<Rightarrow> (string \<Rightarrow> 'v option) \<Rightarrow> ('v, 's) settingsProps \<Rightarrow> 'w settingsState
    \<Rightarrow> 's \<Rightarrow> 's"
where
  "handleClick toNumber JSON_parse props state store =
    (let store = setLayerParameter props ''strokeWidth''
                   (toNumber (state_strokeWidth state)) store
     in (case JSON_parse (state_data state) of
           Some parsedData \<Rightarrow>
             (let store = setLayerParameter props ''data'' parsedData store
              in showMessage props
                   \<lparr>message = ''GeoJSON imported successfully.'', semantics = ''success''\<rparr>
                   store)
         | None \<Rightarrow>
             showMessage props
               \<lparr>message = ''Invalid GeoJSON data.'', semantics = ''error''\<rparr> store))"

text \<open>
  A store to observe the handler on: the layer's parameters by name and the notifications
  shown so far, with the two props writing to it.
\<close>

record layerStore =
  store_parameters :: "(string \<times> jsvalue) list"
  store_notifications :: "notification list"

fun updateParameter :: "string \<Rightarrow> jsvalue \<Rightarrow> (string \<times> jsvalue) list \<Rightarrow> (string \<times> jsvalue) list"
where
  "updateParameter k v [] = [(k, v)]"
| "updateParameter k v ((k', v') # ps) =
     (if k = k' then (k, v) # ps else (k', v') # updateParameter k v ps)"

definition storeProps :: "(jsvalue, layerStore) settingsProps" where
  "storeProps =
    \<lparr>setLayerParameter =
       (\<lambda>k v s. s\<lparr>store_parameters := updateParameter k v (store_parameters s)\<rparr>),
     showMessage = (\<lambda>n s. s\<lparr>store_notifications := store_notifications s @ [n]\<rparr>)\<rparr>"

text \<open>
  Stand-ins for the two library functions, each agreeing with the library on the inputs
  it is used on below: \<open>toNumberDigits\<close> reads a string of decimal digits, and
  \<open>parseEmptyObject\<close> accepts the text \<^verbatim>\<open>{}\<close> and no other; it is used on that text
  and on a text that is not JSON.
\<close>

definition toNumberDigits :: "string \<Rightarrow> jsvalue" where
  "toNumberDigits s =
    JNumber (of_nat (foldl (\<lambda>n c. 10 * n + (of_char c - of_char CHR ''0'')) 0 s))"

definition parseEmptyObject :: "string \<Rightarrow> jsvalue option" where
  "parseEmptyObject s = (if s = ''{}'' then Some (JObject []) else None)"

section \<open>The UAV list (src/views/uavs/UAVList.jsx)\<close>

text \<open>
  A display bucket entry is the array \<^verbatim>\<open>[uavId, missionIndex, proposedLabel]\<close>, each
  component possibly \<^verbatim>\<open>undefined\<close> (\<open>None\<close>). The builders compare an entry with the
  sentinel \<^verbatim>\<open>deletionMarker\<close> by identity; \<open>isDeletionMarker\<close> records whether the
  entry is that object.
\<close>

record item =
  uavId :: "string option"
  missionIndex :: "nat option"
  proposedLabel :: "string option"
  isDeletionMarker :: bool

text \<open>
  The options of the item builders. A callback is \<open>None\<close> where the source passes a
  falsey value; \<open>'c\<close> and \<open>'d\<close> are the click and drop handlers the callbacks make.
\<close>

record ('c, 'd) itemFactoryOptions =
  draggable :: bool
  isInEditMode :: bool
  mappingSlotBeingEdited :: "int option"
  onDropped :: "(nat option \<Rightarrow> 'd) option"
  onSelected :: "(string option \<Rightarrow> nat option \<Rightarrow> 'c) option"
  selectedUAVIds :: "string list"
  showMissionIds :: bool

text \<open>What a builder renders inside a list item.\<close>

datatype content =
    is_DronePlaceholder: DronePlaceholder
      (ph_editing: bool) (ph_label: "string option") (ph_status: string)
  | is_DroneAvatar: DroneAvatar
      (av_id: string) (av_editing: bool) (av_label: "string option") (av_selected: bool)
  | is_DroneStatusLine: DroneStatusLine
      (sl_id: "string option") (sl_label: "string option") (sl_selected: bool)

text \<open>The \<^verbatim>\<open>label\<close> prop of the content.\<close>

fun contentLabel :: "content \<Rightarrow> string option" where
  "contentLabel (DronePlaceholder _ l _) = l"
| "contentLabel (DroneAvatar _ _ l _) = l"
| "contentLabel (DroneStatusLine _ l _) = l"

text \<open>
  A rendered \<^verbatim>\<open>DroneListItem\<close>: its key and props (\<open>None\<close> and \<open>False\<close> for a prop
  that is not passed), whether a \<^verbatim>\<open>MappingSlotEditor\<close> is rendered in it, and its
  content.
\<close>

record ('c, 'd) listItem =
  item_key :: string
  item_draggable :: "bool option"
  item_uavId :: "string option"
  item_stretch :: bool
  item_onClick :: "'c option"
  item_onDrop :: "'d option"
  item_editing :: bool
  item_selected :: bool
  item_fill :: bool
  item_slotEditor :: bool
  item_content :: content

text \<open>\<^verbatim>\<open>selectedUAVIds.includes(uavId)\<close> on an array of strings.\<close>

definition arrayIncludes :: "string list \<Rightarrow> string option \<Rightarrow> bool" where
  "arrayIncludes xs u = (case u of None \<Rightarrow> False | Some v \<Rightarrow> v \<in> set xs)"

text \<open>
  \<^verbatim>\<open>mappingSlotBeingEdited !== undefined && missionIndex === mappingSlotBeingEdited\<close>.
\<close>

definition editingItem :: "int option \<Rightarrow> nat option \<Rightarrow> bool" where
  "editingItem slot mi =
    (slot \<noteq> None \<and> (case mi of None \<Rightarrow> False | Some i \<Rightarrow> Some (int i) = slot))"

text \<open>
  The label of a grid item (lines 145 to 151) and of a list item (lines 217 to 223).
  \<^verbatim>\<open>formatMissionId\<close> is imported from a module outside the sources and is the parameter
  \<open>fmt\<close>.
\<close>

definition gridLabel ::
  "(nat \<Rightarrow> string) \<Rightarrow> ('c, 'd) itemFactoryOptions \<Rightarrow> item \<Rightarrow> string option"
where
  "gridLabel fmt opts it =
    (if truthyString (proposedLabel it) then proposedLabel it
     else if showMissionIds opts
       then (if missionIndex it \<noteq> None \<and> (\<not> isInEditMode opts \<or> uavId it = None)
             then (case missionIndex it of Some i \<Rightarrow> Some (fmt i) | None \<Rightarrow> None)
             else uavId it)
       else uavId it)"

definition listLabel ::
  "(nat \<Rightarrow> string) \<Rightarrow> ('c, 'd) itemFactoryOptions \<Rightarrow> item \<Rightarrow> string option"
where
  "listLabel fmt opts it =
    (if truthyString (proposedLabel it) then proposedLabel it
     else if showMissionIds opts
       then (case missionIndex it of Some i \<Rightarrow> Some (fmt i) | None \<Rightarrow> uavId it)
       else uavId it)"

text \<open>The key: \<^verbatim>\<open>uavId === undefined ? `placeholder-${label || 'null'}` : uavId\<close>.\<close>

definition itemKey :: "string option \<Rightarrow> string option \<Rightarrow> string" where
  "itemKey u label =
    (case u of
       None \<Rightarrow>
         ''placeholder-'' @
           (case label of None \<Rightarrow> ''null'' | Some l \<Rightarrow> if l \<noteq> [] then l else ''null'')
     | Some v \<Rightarrow> v)"

definition createGridItem ::
  "(nat \<Rightarrow> string) \<Rightarrow> ('c, 'd) itemFactoryOptions \<Rightarrow> item \<Rightarrow> ('c, 'd) listItem"
where
  "createGridItem fmt opts it =
    (let editingThisItem = editingItem (mappingSlotBeingEdited opts) (missionIndex it);
         selected = arrayIncludes (selectedUAVIds opts) (uavId it);
         onClick = (case onSelected opts of
                      Some f \<Rightarrow> Some (f (uavId it) (missionIndex it)) | None \<Rightarrow> None);
         onDrop = (case onDropped opts of
                     Some f \<Rightarrow> Some (f (missionIndex it)) | None \<Rightarrow> None);
         fill = isDeletionMarker it;
         label = gridLabel fmt opts it;
         key = itemKey (uavId it) label
     in (case uavId it of
           None \<Rightarrow>
             \<lparr>item_key = key, item_draggable = None, item_uavId = None,
              item_stretch = False, item_onClick = onClick, item_onDrop = onDrop,
              item_editing = editingThisItem, item_selected = selected, item_fill = fill,
              item_slotEditor = editingThisItem,
              item_content = DronePlaceholder editingThisItem
                (if editingThisItem then Some [] else label)
                (if missionIndex it = None then ''error'' else ''off'')\<rparr>
         | Some u \<Rightarrow>
             \<lparr>item_key = key, item_draggable = Some (draggable opts), item_uavId = Some u,
              item_stretch = False, item_onClick = onClick, item_onDrop = onDrop,
              item_editing = editingThisItem, item_selected = selected, item_fill = fill,
              item_slotEditor = editingThisItem,
              item_content = DroneAvatar u editingThisItem
                (if editingThisItem then Some [] else label) selected\<rparr>))"

definition createGridItems ::
  "(nat \<Rightarrow> string) \<Rightarrow> item list \<Rightarrow> ('c, 'd) itemFactoryOptions \<Rightarrow> ('c, 'd) listItem list"
where
  "createGridItems fmt items opts = map (createGridItem fmt opts) items"

definition createListItem ::
  "(nat \<Rightarrow> string) \<Rightarrow> ('c, 'd) itemFactoryOptions \<Rightarrow> item \<Rightarrow> ('c, 'd) listItem"
where
  "createListItem fmt opts it =
    (let editing = editingItem (mappingSlotBeingEdited opts) (missionIndex it);
         selected = arrayIncludes (selectedUAVIds opts) (uavId it);
         onClick = (case onSelected opts of
                      Some f \<Rightarrow> Some (f (uavId it) (missionIndex it)) | None \<Rightarrow> None);
         onDrop = (case onDropped opts of
                     Some f \<Rightarrow> Some (f (missionIndex it)) | None \<Rightarrow> None);
         fill = isDeletionMarker it;
         label = listLabel fmt opts it;
         key = itemKey (uavId it) label
     in \<lparr>item_key = key, item_draggable = None, item_uavId = None,
         item_stretch = True, item_onClick = onClick, item_onDrop = onDrop,
         item_editing = editing, item_selected = selected, item_fill = fill,
         item_slotEditor = False,
         item_content = DroneStatusLine (uavId it) label selected\<rparr>)"

definition createListItems ::
  "(nat \<Rightarrow> string) \<Rightarrow> item list \<Rightarrow> ('c, 'd) itemFactoryOptions \<Rightarrow> ('c, 'd) listItem list"
where
  "createListItems fmt items opts = map (createListItem fmt opts) items"

text \<open>
  The handlers the presentation passes to the builders. In edit mode a click dispatches
  \<^verbatim>\<open>onEditMappingSlot(missionIndex)\<close>; otherwise it is the handler of the external
  selection helper, the parameter \<open>onUpdateSelection\<close>. A drop handler is the closure
  over the target index that dispatches
  \<^verbatim>\<open>onMappingAdjusted({uavId: droppedUAVId, to: targetIndex})\<close>.
\<close>

datatype 'h click = EditMappingSlot "nat option" | UpdateSelection 'h

datatype drop = DropOnto "nat option"

record mappingAdjustment =
  adj_uavId :: string
  adj_to :: "nat option"

fun runDrop :: "drop \<Rightarrow> string \<Rightarrow> mappingAdjustment" where
  "runDrop (DropOnto targetIndex) droppedUAVId =
     \<lparr>adj_uavId = droppedUAVId, adj_to = targetIndex\<rparr>"

record displayedIdList =
  mainUAVIds :: "item list"
  spareUAVIds :: "item list"
  extraSlots :: "item list"

text \<open>
  \<^verbatim>\<open>mappingSlotBeingEdited < 0\<close> and \<^verbatim>\<open>mappingSlotBeingEdited >= 0\<close>: both are false
  for \<^verbatim>\<open>undefined\<close>.
\<close>

definition lessThanZero :: "int option \<Rightarrow> bool" where
  "lessThanZero slot = (case slot of None \<Rightarrow> False | Some n \<Rightarrow> n < 0)"

definition atLeastZero :: "int option \<Rightarrow> bool" where
  "atLeastZero slot = (case slot of None \<Rightarrow> False | Some n \<Rightarrow> n \<ge> 0)"

text \<open>
  \<^verbatim>\<open>UAVListSection\<close>: nothing is rendered for an empty bucket that is not forced
  visible; otherwise the items the factory builds (under a subheader).
\<close>

definition UAVListSection ::
  "bool \<Rightarrow> item list \<Rightarrow> (item list \<Rightarrow> 'o \<Rightarrow> 'r list) \<Rightarrow> 'o \<Rightarrow> 'r list option"
where
  "UAVListSection forceVisible ids itemFactory itemFactoryOptions =
    (if length ids \<le> 0 \<and> \<not> forceVisible then None
     else Some (itemFactory ids itemFactoryOptions))"

text \<open>
  What \<^verbatim>\<open>UAVListPresentation\<close> renders: whether the tree is wrapped in the
  drag-and-drop provider, which of the three toolbars is shown (the \<^verbatim>\<open>in\<close> prop of its
  transition), the two sections and the bottom bar of extra slots.
\<close>

record ('c, 'd) presentation =
  dndProvider :: bool
  uavToolbar :: bool
  mappingEditorToolbar :: bool
  mappingSlotEditorToolbar :: bool
  mainSection :: "('c, 'd) listItem list option"
  spareSection :: "('c, 'd) listItem list option"
  bottomBar :: "('c, 'd) listItem list option"

definition UAVListPresentation ::
  "(nat \<Rightarrow> string) \<Rightarrow> (string option \<Rightarrow> nat option \<Rightarrow> 'h) \<Rightarrow> bool \<Rightarrow> string \<Rightarrow> int option
    \<Rightarrow> string list \<Rightarrow> bool \<Rightarrow> displayedIdList \<Rightarrow> ('h click, drop) presentation"
where
  "UAVListPresentation fmt onUpdateSelection editingMapping layout slotBeingEdited
      selected showIds uavIds =
    (let onStartEditing = (\<lambda>u mi. EditMappingSlot mi);
         itemFactory = (if layout = ''grid'' then createGridItems fmt else createListItems fmt);
         itemFactoryOptions =
           \<lparr>draggable = editingMapping,
            isInEditMode = editingMapping,
            mappingSlotBeingEdited = slotBeingEdited,
            onDropped = (if editingMapping then Some DropOnto else None),
            onSelected = Some (if editingMapping then onStartEditing
                               else (\<lambda>u mi. UpdateSelection (onUpdateSelection u mi))),
            selectedUAVIds = selected,
            showMissionIds = showIds\<rparr>
     in \<lparr>dndProvider = editingMapping,
         uavToolbar = (\<not> editingMapping),
         mappingEditorToolbar = (editingMapping \<and> lessThanZero slotBeingEdited),
         mappingSlotEditorToolbar = (editingMapping \<and> atLeastZero slotBeingEdited),
         mainSection =
           UAVListSection False (mainUAVIds uavIds) itemFactory itemFactoryOptions,
         spareSection =
           UAVListSection editingMapping (spareUAVIds uavIds) itemFactory itemFactoryOptions,
         bottomBar =
           (if length (extraSlots uavIds) > 0
            then Some (createGridItems fmt (extraSlots uavIds) itemFactoryOptions)
            else None)\<rparr>)"

text \<open>
  The rendered items that are marked as the slot being edited (the \<^verbatim>\<open>editing\<close> prop, or
  a slot editor inside), over the two sections and the bottom bar.
\<close>

definition sectionItems :: "'r list option \<Rightarrow> 'r list" where
  "sectionItems sec = (case sec of None \<Rightarrow> [] | Some rs \<Rightarrow> rs)"

definition markedItems :: "('c, 'd) presentation \<Rightarrow> ('c, 'd) listItem list" where
  "markedItems p =
    filter (\<lambda>r. item_editing r \<or> item_slotEditor r)
      (sectionItems (mainSection p) @ sectionItems (spareSection p) @ sectionItems (bottomBar p))"

text \<open>
  Modelled from the spec: \<^verbatim>\<open>formatMissionId\<close> (\<^verbatim>\<open>~/utils/formatting\<close>) is missing.
  The spec's scenario writes the formatted mission id of slot 0 as \<open>S1\<close>: the letter and
  the one-based number of the slot. The builders take the formatter as a parameter; this
  one is used to evaluate them.
\<close>

fun decimal :: "nat \<Rightarrow> string" where
  "decimal n =
    (if n < 10 then [''0123456789'' ! n]
     else decimal (n div 10) @ [''0123456789'' ! (n mod 10)])"

definition formatMissionId :: "nat \<Rightarrow> string" where
  "formatMissionId index = ''S'' @ decimal (index + 1)"

subsection \<open>Selecting a section\<close>

text \<open>
  lodash's \<^verbatim>\<open>difference(array, values)\<close> keeps the elements of \<open>array\<close> that are not in
  \<open>values\<close>, in order; \<^verbatim>\<open>union(a, b)\<close> keeps the first occurrence of every element of
  \<open>a\<close> followed by \<open>b\<close>; \<^verbatim>\<open>isNil\<close> tests for \<^verbatim>\<open>undefined\<close> or \<^verbatim>\<open>null\<close>.
\<close>

definition lodash_difference :: "'a list \<Rightarrow> 'a list \<Rightarrow> 'a list" where
  "lodash_difference array vals = filter (\<lambda>x. x \<notin> set vals) array"

fun uniq :: "'a list \<Rightarrow> 'a list \<Rightarrow> 'a list" where
  "uniq seen [] = seen"
| "uniq seen (x # xs) = (if x \<in> set seen then uniq seen xs else uniq (seen @ [x]) xs)"

definition lodash_union :: "'a list \<Rightarrow> 'a list \<Rightarrow> 'a list" where
  "lodash_union a b = uniq [] (a @ b)"

definition isNil :: "'a option \<Rightarrow> bool" where
  "isNil x = (x = None)"

record selectionInfo =
  checked :: bool
  disabled :: bool
  indeterminate :: bool

datatype action = SetSelectedUAVIds "string list"

text \<open>The \<^verbatim>\<open>reduce\<close> that collects the ids of a bucket that are not nil.\<close>

definition displayedIdsOf :: "item list \<Rightarrow> string list" where
  "displayedIdsOf displayedIdsAndLabels =
    foldl (\<lambda>acc idAndLabel.
             if \<not> isNil (uavId idAndLabel)
             then (case uavId idAndLabel of Some u \<Rightarrow> acc @ [u] | None \<Rightarrow> acc)
             else acc)
          [] displayedIdsAndLabels"

text \<open>
  \<^verbatim>\<open>onSelectSection\<close>. The three selectors are imported from modules outside the
  sources and are parameters: \<open>getDisplayedIdList state value\<close> and
  \<open>getSelectionInfo state value\<close> are the property \<open>value\<close> of what the selector
  returns, \<open>None\<close> when there is no such property. The result is the action dispatched,
  if any.
\<close>

definition onSelectSection ::
  "('s \<Rightarrow> string \<Rightarrow> item list option) \<Rightarrow> ('s \<Rightarrow> string list)
    \<Rightarrow> ('s \<Rightarrow> string \<Rightarrow> selectionInfo option) \<Rightarrow> string \<Rightarrow> 's \<Rightarrow> action option"
where
  "onSelectSection getDisplayedIdList getSelectedUAVIds getSelectionInfo val state =
    (let displayedIdsAndLabels = getDisplayedIdList state val;
         selectedIds = getSelectedUAVIds state;
         info = getSelectionInfo state val
     in (case info of
           None \<Rightarrow> None
         | Some selInfo \<Rightarrow>
             (case displayedIdsAndLabels of
                None \<Rightarrow> None
              | Some idsAndLabels \<Rightarrow>
                  (let displayedIds = displayedIdsOf idsAndLabels;
                       newSelection =
                         (if checked selInfo then lodash_difference selectedIds displayedIds
                          else lodash_union selectedIds displayedIds)
                   in Some (SetSelectedUAVIds newSelection)))))"

section \<open>The mission mapping store and the displayed-id-list selector\<close>

text \<open>
  The mapping: one entry per slot, \<open>None\<close> for an empty slot. The mission slice
  (\<^verbatim>\<open>~/features/mission/slice\<close>) and the selectors of the list
  (\<^verbatim>\<open>./selectors\<close>) are not among the sources; the definitions of this section follow
  the specification.
\<close>

type_synonym missionMapping = "string option list"

record missionState =
  st_fleet :: "string list"
  st_mapping :: missionMapping
  st_cursor :: "int option"
  st_selection :: "string list"

text \<open>
  Modelled from the spec: the reducer \<^verbatim>\<open>adjustMissionMapping\<close> of the mission slice is
  missing. The spec: it moves \<open>uavId\<close> into \<open>slotIndex\<close>, vacating any slot it
  previously occupied; if \<open>slotIndex\<close> was previously occupied by a different UAV, that
  UAV becomes unmapped. The target \<open>to\<close> is what the drop handler of the list passes: the
  mission index of the drop target, which is \<^verbatim>\<open>undefined\<close> (\<open>None\<close>) for a spare and
  for the deletion marker, the target the spec calls "drop here to unassign"; the UAV is
  then vacated and placed nowhere. The spec has slot indices of the mapping only; for an
  index past the end the assignment does what an assignment to a JavaScript array does:
  the array grows, with empty slots up to the index.
\<close>

definition vacate :: "string \<Rightarrow> missionMapping \<Rightarrow> missionMapping" where
  "vacate u m = map (\<lambda>s. if s = Some u then None else s) m"

definition assignSlot :: "nat \<Rightarrow> string option \<Rightarrow> missionMapping \<Rightarrow> missionMapping" where
  "assignSlot i v m =
    (if i < length m then m[i := v] else m @ replicate (i - length m) None @ [v])"

definition adjustMissionMapping ::
  "string \<Rightarrow> nat option \<Rightarrow> missionMapping \<Rightarrow> missionMapping"
where
  "adjustMissionMapping u to m =
    (case to of
       None \<Rightarrow> vacate u m
     | Some slotIndex \<Rightarrow> assignSlot slotIndex (Some u) (vacate u m))"

text \<open>
  Dispatching the action is one transition of the store: the state after it is the
  reducer applied to the state before it, and only the mapping is written. The payload is
  what the drop handler of the list builds (\<open>runDrop\<close>).
\<close>

definition dispatchAdjustMissionMapping :: "mappingAdjustment \<Rightarrow> missionState \<Rightarrow> missionState"
where
  "dispatchAdjustMissionMapping payload st =
    st\<lparr>st_mapping := adjustMissionMapping (adj_uavId payload) (adj_to payload) (st_mapping st)\<rparr>"

text \<open>
  The mappings a finite sequence of \<^verbatim>\<open>adjustMissionMapping\<close> calls leads to, with any
  UAV id and any target.
\<close>

inductive reachable :: "missionMapping \<Rightarrow> missionMapping \<Rightarrow> bool" for m0 where
  start: "reachable m0 m0"
| adjust: "reachable m0 m \<Longrightarrow> reachable m0 (adjustMissionMapping u to m)"

text \<open>The ids the mapping holds, slot by slot; a well-formed mapping holds none twice.\<close>

definition mappedIds :: "missionMapping \<Rightarrow> string list" where
  "mappedIds m = concat (map (\<lambda>s. case s of None \<Rightarrow> [] | Some u \<Rightarrow> [u]) m)"

definition wellFormed :: "missionMapping \<Rightarrow> bool" where
  "wellFormed m = distinct (mappedIds m)"

text \<open>
  Modelled from the spec: the selector \<^verbatim>\<open>getDisplayedIdList\<close> is missing. The spec:
  \<open>mainUAVIds\<close> has, for each slot index in mapping order, the entry
  \<open>(uavId_or_undefined, slotIndex, undefined)\<close>; \<open>spareUAVIds\<close> has every fleet UAV id
  not present in the mapping, in a stable order, each as \<open>(uavId, undefined, undefined)\<close>.
  The spec does not say when \<open>extraSlots\<close> has entries, so that bucket is not modelled.
\<close>

definition displayedMainUAVIds :: "missionState \<Rightarrow> item list" where
  "displayedMainUAVIds st =
    map (\<lambda>(i, u). \<lparr>uavId = u, missionIndex = Some i, proposedLabel = None,
                    isDeletionMarker = False\<rparr>)
        (enumerate 0 (st_mapping st))"

definition displayedSpareUAVIds :: "missionState \<Rightarrow> item list" where
  "displayedSpareUAVIds st =
    map (\<lambda>u. \<lparr>uavId = Some u, missionIndex = None, proposedLabel = None,
               isDeletionMarker = False\<rparr>)
        (filter (\<lambda>u. Some u \<notin> set (st_mapping st)) (st_fleet st))"

section \<open>Results: layer creation\<close>

lemma layerTypeKey_values:
  "layerTypeKey ''BASE'' = ''base''"
  "layerTypeKey ''GEOJSON'' = ''geojson''"
  "layerTypeKey ''HEATMAP'' = ''heatmap''"
  "layerTypeKey ''HEXGRID'' = ''hexgrid''"
  "layerTypeKey ''OWN_LOCATION'' = ''ownlocation''"
  "layerTypeKey ''UAVS'' = ''uavs''"
  "layerTypeKey ''UAVTrace'' = ''uavtrace''"
  "layerTypeKey ''UAVTRACE'' = ''undefined''"
  "layerTypeKey ''UNTYPED'' = ''untyped''"
  by (simp_all add: layerTypeKey_def LayerType_def)

lemma defaultParameters_uavtrace:
  "defaultParametersForLayerType ''uavtrace'' = Inl TypeError"
  by (simp add: defaultParametersForLayerType_def propertiesForLayerTypes_def
      layerTypeKey_values objectPrototypeKeys_def)

text \<open>
  With a falsey layer type the layer is untyped, hidden and has the empty parameter object;
  the trace entry of the table is reached by the type \<^verbatim>\<open>'undefined'\<close>.
\<close>

lemma createNewLayer_falsey:
  "createNewLayer None name JUndefined =
     Inr \<lparr>layer_type = ''untyped'', layer_label = name, layer_visible = False,
          layer_parameters = JObject []\<rparr>"
  "createNewLayer (Some []) name JUndefined =
     Inr \<lparr>layer_type = ''untyped'', layer_label = name, layer_visible = False,
          layer_parameters = JObject []\<rparr>"
  by (simp_all add: createNewLayer_def LayerType_UNTYPED_def layerTypeKey_values
      defaultParametersForLayerType_def propertiesForLayerTypes_def cloneDeep_def)

lemma createNewLayer_given_parameters:
  "truthy parameters \<Longrightarrow> t \<noteq> [] \<Longrightarrow>
     createNewLayer (Some t) name parameters =
       Inr \<lparr>layer_type = t, layer_label = name, layer_visible = (t \<noteq> ''untyped''),
            layer_parameters = parameters\<rparr>"
  by (simp add: createNewLayer_def LayerType_UNTYPED_def layerTypeKey_values)

text \<open>
  C10. \<^verbatim>\<open>createNewLayer\<close> with the enum's trace type \<^verbatim>\<open>LayerType.UAVTrace\<close> and no
  parameters returns no layer: the table holds the trace entry under the key
  \<^verbatim>\<open>"undefined"\<close>, so the defaults of \<^verbatim>\<open>'uavtrace'\<close> are read from an
  \<^verbatim>\<open>undefined\<close> entry and the call throws.
\<close>

theorem createNewLayer_uavtrace_throws:
  "createNewLayer (Some (layerTypeKey ''UAVTrace'')) ''Trace'' JUndefined = Inl TypeError"
  by (simp add: createNewLayer_def layerTypeKey_values defaultParameters_uavtrace)

section \<open>Results: the UAV feature\<close>


lemma setupStyle_icons:
  "feature_icons (setupStyle f) = feature_icons f @
      [\<lparr>icon_rotateWithView = True, icon_rotation = js_rem (priv_heading f) 360 * pi / 180,
        icon_snapToPixel = False,
        icon_src = ''assets/drone.x.'' @ priv_color f @ ''.32x32.png''\<rparr>,
       \<lparr>icon_rotateWithView = True, icon_rotation = js_rem (priv_heading f) 360 * pi / 180,
        icon_snapToPixel = False, icon_src = ''assets/selection_glow.png''\<rparr>]"
  "priv_iconImage (setupStyle f) = Some (length (feature_icons f))"
  "priv_selectionImage (setupStyle f) = Some (Suc (length (feature_icons f)))"
  by (simp_all add: setupStyle_def newIcon_def Let_def headingToRotation_def)

lemma setupStyle_style:
  "feature_style (setupStyle f) =
     Some ((if priv_selected f then [ImageStyle (Suc (length (feature_icons f)))] else []) @
           [ImageStyle (length (feature_icons f)),
            TextStyle \<lparr>text_font = ''12px sans-serif'', text_offsetY = 24,
                       text_text = (case feature_uavId f of
                                      None \<Rightarrow> ''undefined''
                                    | Some u \<Rightarrow> if u \<noteq> [] then u else ''undefined''),
                       text_textAlign = ''center''\<rparr>])"
  by (simp add: setupStyle_def newIcon_def Let_def)

text \<open>
  The constructor sets both icons and every setter keeps them set, so \<^verbatim>\<open>set heading\<close>
  on a feature that was built by the constructor and changed by the setters never throws.
\<close>

lemma iconsSet_setupStyle: "iconsSet (setupStyle f)"
  by (simp add: iconsSet_def setupStyle_icons)

lemma iconsSet_new: "iconsSet (newUAVFeature u g)"
  by (simp add: newUAVFeature_def iconsSet_setupStyle)

lemma length_setRotation: "length (setRotation a r icons) = length icons"
  by (simp add: setRotation_def)

lemma iconsSet_setters:
  assumes "iconsSet f"
  shows "iconsSet (set_selected b f)" and "iconsSet (set_color c f)"
    and "\<exists>f'. set_heading h f = Inr f' \<and> iconsSet f'"
proof -
  show "iconsSet (set_selected b f)"
    using assms by (simp add: set_selected_def iconsSet_setupStyle)
  show "iconsSet (set_color c f)"
    using assms by (simp add: set_color_def iconsSet_setupStyle)
  show "\<exists>f'. set_heading h f = Inr f' \<and> iconsSet f'"
    using assms
    by (auto simp: set_heading_def iconsSet_def Let_def length_setRotation
        split: option.splits)
qed




section \<open>Results: the GeoJSON layer settings\<close>

lemma map_of_updateParameter:
  "map_of (updateParameter k v ps) = (map_of ps)(k \<mapsto> v)"
  by (induction ps) (auto simp: fun_eq_iff)

text \<open>
  C7, as the code has it. The handler first stores the stroke width, whatever the text of
  the data field is. If parsing the text fails, it shows the error notification and leaves
  every other parameter, the data with them, as it was; if parsing succeeds, the data
  parameter becomes the parsed value and the success notification is shown. Stated on the
  store, for any \<^verbatim>\<open>toNumber\<close> and \<^verbatim>\<open>JSON.parse\<close>.
\<close>

theorem handleClick_store:
  "(JSON_parse (state_data state) = None \<longrightarrow>
      store_notifications (handleClick toNumber JSON_parse storeProps state store) =
        store_notifications store @
          [\<lparr>message = ''Invalid GeoJSON data.'', semantics = ''error''\<rparr>]
    \<and> map_of (store_parameters (handleClick toNumber JSON_parse storeProps state store)) =
        (map_of (store_parameters store))
          (''strokeWidth'' \<mapsto> toNumber (state_strokeWidth state)))
   \<and> (JSON_parse (state_data state) = Some parsedData \<longrightarrow>
      store_notifications (handleClick toNumber JSON_parse storeProps state store) =
        store_notifications store @
          [\<lparr>message = ''GeoJSON imported successfully.'', semantics = ''success''\<rparr>]
    \<and> map_of (store_parameters (handleClick toNumber JSON_parse storeProps state store)) =
        (map_of (store_parameters store))
          (''strokeWidth'' \<mapsto> toNumber (state_strokeWidth state), ''data'' \<mapsto> parsedData))"
  by (simp add: handleClick_def storeProps_def map_of_updateParameter Let_def)

theorem handleClick_store_witness:
  "map_of (store_parameters
     (handleClick toNumberDigits parseEmptyObject storeProps
        \<lparr>state_strokeWidth = ''5'', state_data = ''{oops''\<rparr>
        \<lparr>store_parameters = [(''data'', JObject [(''type'', JString ''Point'')])],
         store_notifications = []\<rparr>))
   = [''data'' \<mapsto> JObject [(''type'', JString ''Point'')], ''strokeWidth'' \<mapsto> JNumber 5]
   \<and> map_of (store_parameters
     (handleClick toNumberDigits parseEmptyObject storeProps
        \<lparr>state_strokeWidth = ''5'', state_data = ''{}''\<rparr>
        \<lparr>store_parameters = [(''data'', JObject [(''type'', JString ''Point'')])],
         store_notifications = []\<rparr>))
   = [''strokeWidth'' \<mapsto> JNumber 5, ''data'' \<mapsto> JObject []]"
  using
    handleClick_store [of parseEmptyObject "\<lparr>state_strokeWidth = ''5'', state_data = ''{oops''\<rparr>"
      toNumberDigits
      "\<lparr>store_parameters = [(''data'', JObject [(''type'', JString ''Point'')])],
        store_notifications = []\<rparr>" "JObject []"]
    handleClick_store [of parseEmptyObject "\<lparr>state_strokeWidth = ''5'', state_data = ''{}''\<rparr>"
      toNumberDigits
      "\<lparr>store_parameters = [(''data'', JObject [(''type'', JString ''Point'')])],
        store_notifications = []\<rparr>" "JObject []"]
  by (simp add: parseEmptyObject_def toNumberDigits_def fun_upd_twist)

text \<open>
  The claim as stated fails: with the stroke width field changed to \<^verbatim>\<open>5\<close> and a data
  text that does not parse, the stored parameters differ after the click.
\<close>

theorem handleClick_store_counterexample:
  "parseEmptyObject ''{oops'' = None \<and>
   store_parameters
     (handleClick toNumberDigits parseEmptyObject storeProps
        \<lparr>state_strokeWidth = ''5'', state_data = ''{oops''\<rparr>
        \<lparr>store_parameters = [(''data'', JObject []), (''strokeWidth'', JNumber 2)],
         store_notifications = []\<rparr>)
   \<noteq> [(''data'', JObject []), (''strokeWidth'', JNumber 2)]"
  by (simp add: handleClick_def storeProps_def parseEmptyObject_def toNumberDigits_def)

section \<open>Results: the item builders\<close>

lemma formatMissionId_0: "formatMissionId 0 = ''S1''"
  by (simp add: formatMissionId_def)

lemma formatMissionId_1: "formatMissionId (Suc 0) = ''S2''"
  by (simp add: formatMissionId_def)

text \<open>
  C1, as the code has it. A truthy proposed label wins in both builders. Otherwise the grid
  builder shows the formatted mission id exactly when mission ids are displayed, the item
  has a slot index and (edit mode is off or the item has no UAV id), and the UAV id in
  every other case; the list builder does not look at edit mode: it shows the formatted
  mission id whenever mission ids are displayed and the item has a slot index. These
  labels are the ones rendered (the grid blanks the label of the slot being edited). So
  for an item with a UAV id and a slot index, edit mode makes the grid label the raw UAV
  id while the list label stays the mission id; an empty slot keeps its mission id label
  in both builders; outside edit mode, and for items without a UAV id, the two agree.
\<close>

theorem label_derivation:
  "gridLabel fmt opts it =
     (if truthyString (proposedLabel it) then proposedLabel it
      else if showMissionIds opts \<and> missionIndex it \<noteq> None
              \<and> (\<not> isInEditMode opts \<or> uavId it = None)
      then map_option fmt (missionIndex it)
      else uavId it)
   \<and> listLabel fmt opts it =
     (if truthyString (proposedLabel it) then proposedLabel it
      else if showMissionIds opts \<and> missionIndex it \<noteq> None
      then map_option fmt (missionIndex it)
      else uavId it)
   \<and> contentLabel (item_content (createListItem fmt opts it)) = listLabel fmt opts it
   \<and> contentLabel (item_content (createGridItem fmt opts it)) =
       (if editingItem (mappingSlotBeingEdited opts) (missionIndex it) then Some []
        else gridLabel fmt opts it)
   \<and> (\<not> truthyString (proposedLabel it) \<and> showMissionIds opts \<and> isInEditMode opts
        \<and> uavId it \<noteq> None \<and> missionIndex it \<noteq> None \<longrightarrow>
          gridLabel fmt opts it = uavId it
        \<and> listLabel fmt opts it = map_option fmt (missionIndex it))
   \<and> (\<not> truthyString (proposedLabel it) \<and> showMissionIds opts
        \<and> uavId it = None \<and> missionIndex it \<noteq> None \<longrightarrow>
          gridLabel fmt opts it = map_option fmt (missionIndex it)
        \<and> listLabel fmt opts it = map_option fmt (missionIndex it))
   \<and> (\<not> isInEditMode opts \<or> uavId it = None \<longrightarrow>
          listLabel fmt opts it = gridLabel fmt opts it)"
proof -
  have g: "gridLabel fmt opts it =
     (if truthyString (proposedLabel it) then proposedLabel it
      else if showMissionIds opts \<and> missionIndex it \<noteq> None
              \<and> (\<not> isInEditMode opts \<or> uavId it = None)
      then map_option fmt (missionIndex it)
      else uavId it)"
    by (cases "missionIndex it") (simp_all add: gridLabel_def)
  have l: "listLabel fmt opts it =
     (if truthyString (proposedLabel it) then proposedLabel it
      else if showMissionIds opts \<and> missionIndex it \<noteq> None
      then map_option fmt (missionIndex it)
      else uavId it)"
    by (cases "missionIndex it") (simp_all add: listLabel_def)
  have cl: "contentLabel (item_content (createListItem fmt opts it)) = listLabel fmt opts it"
    by (simp add: createListItem_def Let_def)
  have cg: "contentLabel (item_content (createGridItem fmt opts it)) =
       (if editingItem (mappingSlotBeingEdited opts) (missionIndex it) then Some []
        else gridLabel fmt opts it)"
    by (cases "uavId it") (simp_all add: createGridItem_def Let_def)
  show ?thesis
    unfolding cl cg by (simp add: g l)
qed

theorem label_derivation_witness:
  "gridLabel formatMissionId
     \<lparr>draggable = True, isInEditMode = True, mappingSlotBeingEdited = Some 1,
      onDropped = Some DropOnto, onSelected = None :: (string option \<Rightarrow> nat option \<Rightarrow> unit) option,
      selectedUAVIds = [], showMissionIds = True\<rparr>
     \<lparr>uavId = Some ''A'', missionIndex = Some 0, proposedLabel = None,
      isDeletionMarker = False\<rparr> = Some ''A''
   \<and> listLabel formatMissionId
     \<lparr>draggable = True, isInEditMode = True, mappingSlotBeingEdited = Some 1,
      onDropped = Some DropOnto, onSelected = None :: (string option \<Rightarrow> nat option \<Rightarrow> unit) option,
      selectedUAVIds = [], showMissionIds = True\<rparr>
     \<lparr>uavId = Some ''A'', missionIndex = Some 0, proposedLabel = None,
      isDeletionMarker = False\<rparr> = Some ''S1''
   \<and> gridLabel formatMissionId
     \<lparr>draggable = True, isInEditMode = True, mappingSlotBeingEdited = Some 1,
      onDropped = Some DropOnto, onSelected = None :: (string option \<Rightarrow> nat option \<Rightarrow> unit) option,
      selectedUAVIds = [], showMissionIds = True\<rparr>
     \<lparr>uavId = None, missionIndex = Some 1, proposedLabel = None,
      isDeletionMarker = False\<rparr> = Some ''S2''"
  using
    label_derivation [of formatMissionId
      "\<lparr>draggable = True, isInEditMode = True, mappingSlotBeingEdited = Some 1,
        onDropped = Some DropOnto, onSelected = None :: (string option \<Rightarrow> nat option \<Rightarrow> unit) option,
        selectedUAVIds = [], showMissionIds = True\<rparr>"
      "\<lparr>uavId = Some ''A'', missionIndex = Some 0, proposedLabel = None,
        isDeletionMarker = False\<rparr>"]
    label_derivation [of formatMissionId
      "\<lparr>draggable = True, isInEditMode = True, mappingSlotBeingEdited = Some 1,
        onDropped = Some DropOnto, onSelected = None :: (string option \<Rightarrow> nat option \<Rightarrow> unit) option,
        selectedUAVIds = [], showMissionIds = True\<rparr>"
      "\<lparr>uavId = None, missionIndex = Some 1, proposedLabel = None,
        isDeletionMarker = False\<rparr>"]
  by (simp add: gridLabel_def listLabel_def formatMissionId_0 formatMissionId_1)

text \<open>
  The claim as stated fails for the list builder: in edit mode, with mission ids displayed,
  the list item of UAV \<open>A\<close> in slot 0 is labelled with the mission id, not with \<open>A\<close>.
\<close>

theorem label_derivation_counterexample:
  "contentLabel (item_content (createListItem formatMissionId
      \<lparr>draggable = True, isInEditMode = True, mappingSlotBeingEdited = Some 1,
       onDropped = Some DropOnto, onSelected = None :: (string option \<Rightarrow> nat option \<Rightarrow> unit) option,
       selectedUAVIds = [], showMissionIds = True\<rparr>
      \<lparr>uavId = Some ''A'', missionIndex = Some 0, proposedLabel = None,
       isDeletionMarker = False\<rparr>)) \<noteq> Some ''A''"
  by (simp add: createListItem_def Let_def listLabel_def formatMissionId_0)

text \<open>
  C9. \<^verbatim>\<open>createGridItems\<close> renders one entry per item, in order: a placeholder exactly
  for the items whose UAV id is undefined, with status \<open>error\<close> when the item has no
  mission index either and \<open>off\<close> when it has one; a drone avatar of that id for an item
  with a UAV id; and the fill flag exactly on the deletion marker.
\<close>

theorem grid_items:
  "list_all2
     (\<lambda>it r.
        (is_DronePlaceholder (item_content r) \<longleftrightarrow> uavId it = None)
      \<and> (uavId it = None \<longrightarrow>
            ph_status (item_content r) = (if missionIndex it = None then ''error'' else ''off''))
      \<and> (\<forall>u. uavId it = Some u \<longrightarrow>
            is_DroneAvatar (item_content r) \<and> av_id (item_content r) = u)
      \<and> (item_fill r \<longleftrightarrow> isDeletionMarker it))
     items (createGridItems fmt items opts)"
proof -
  have one:
    "(is_DronePlaceholder (item_content (createGridItem fmt opts it)) \<longleftrightarrow> uavId it = None)
      \<and> (uavId it = None \<longrightarrow>
            ph_status (item_content (createGridItem fmt opts it)) =
              (if missionIndex it = None then ''error'' else ''off''))
      \<and> (\<forall>u. uavId it = Some u \<longrightarrow>
            is_DroneAvatar (item_content (createGridItem fmt opts it))
            \<and> av_id (item_content (createGridItem fmt opts it)) = u)
      \<and> (item_fill (createGridItem fmt opts it) \<longleftrightarrow> isDeletionMarker it)" for it
    by (cases "uavId it") (simp_all add: createGridItem_def Let_def)
  show ?thesis
    unfolding createGridItems_def list_all2_map2
    by (rule list_all2_refl) (rule one)
qed

theorem grid_items_witness:
  "map item_content (createGridItems formatMissionId
     [\<lparr>uavId = Some ''A'', missionIndex = Some 0, proposedLabel = None, isDeletionMarker = False\<rparr>,
      \<lparr>uavId = None, missionIndex = Some 1, proposedLabel = None, isDeletionMarker = False\<rparr>,
      \<lparr>uavId = None, missionIndex = None, proposedLabel = None, isDeletionMarker = True\<rparr>]
     \<lparr>draggable = False, isInEditMode = False, mappingSlotBeingEdited = Some (- 1),
      onDropped = None :: (nat option \<Rightarrow> drop) option,
      onSelected = None :: (string option \<Rightarrow> nat option \<Rightarrow> unit) option,
      selectedUAVIds = [''A''], showMissionIds = True\<rparr>)
   = [DroneAvatar ''A'' False (Some ''S1'') True,
      DronePlaceholder False (Some ''S2'') ''off'',
      DronePlaceholder False None ''error'']
   \<and> map item_fill (createGridItems formatMissionId
     [\<lparr>uavId = Some ''A'', missionIndex = Some 0, proposedLabel = None, isDeletionMarker = False\<rparr>,
      \<lparr>uavId = None, missionIndex = Some 1, proposedLabel = None, isDeletionMarker = False\<rparr>,
      \<lparr>uavId = None, missionIndex = None, proposedLabel = None, isDeletionMarker = True\<rparr>]
     \<lparr>draggable = False, isInEditMode = False, mappingSlotBeingEdited = Some (- 1),
      onDropped = None :: (nat option \<Rightarrow> drop) option,
      onSelected = None :: (string option \<Rightarrow> nat option \<Rightarrow> unit) option,
      selectedUAVIds = [''A''], showMissionIds = True\<rparr>)
   = [False, False, True]"
  using
    grid_items [of
      "[\<lparr>uavId = Some ''A'', missionIndex = Some 0, proposedLabel = None, isDeletionMarker = False\<rparr>,
        \<lparr>uavId = None, missionIndex = Some 1, proposedLabel = None, isDeletionMarker = False\<rparr>,
        \<lparr>uavId = None, missionIndex = None, proposedLabel = None, isDeletionMarker = True\<rparr>]"
      formatMissionId
      "\<lparr>draggable = False, isInEditMode = False, mappingSlotBeingEdited = Some (- 1),
        onDropped = None :: (nat option \<Rightarrow> drop) option,
        onSelected = None :: (string option \<Rightarrow> nat option \<Rightarrow> unit) option,
        selectedUAVIds = [''A''], showMissionIds = True\<rparr>"]
  by (simp add: createGridItems_def createGridItem_def gridLabel_def editingItem_def
      arrayIncludes_def itemKey_def formatMissionId_0 formatMissionId_1 Let_def)

section \<open>Results: the presentation\<close>

lemma editingItem_None: "editingItem None mi = False"
  by (simp add: editingItem_def)

lemma editingItem_negative: "n < 0 \<Longrightarrow> editingItem (Some n) mi = False"
  by (auto simp: editingItem_def split: option.splits)

lemma grid_item_editing:
  "item_editing (createGridItem fmt opts it) =
     editingItem (mappingSlotBeingEdited opts) (missionIndex it)"
  "item_slotEditor (createGridItem fmt opts it) =
     editingItem (mappingSlotBeingEdited opts) (missionIndex it)"
  by (simp_all add: createGridItem_def Let_def split: option.splits)

lemma list_item_editing:
  "item_editing (createListItem fmt opts it) =
     editingItem (mappingSlotBeingEdited opts) (missionIndex it)"
  "item_slotEditor (createListItem fmt opts it) = False"
  by (simp_all add: createListItem_def Let_def)

lemma no_marked_grid:
  "\<forall>mi. \<not> editingItem (mappingSlotBeingEdited opts) mi \<Longrightarrow>
     filter (\<lambda>r. item_editing r \<or> item_slotEditor r) (createGridItems fmt items opts) = []"
  by (simp add: createGridItems_def filter_empty_conv grid_item_editing)

lemma no_marked_list:
  "\<forall>mi. \<not> editingItem (mappingSlotBeingEdited opts) mi \<Longrightarrow>
     filter (\<lambda>r. item_editing r \<or> item_slotEditor r) (createListItems fmt items opts) = []"
  by (simp add: createListItems_def filter_empty_conv list_item_editing)

lemma no_marked_presentation:
  assumes "\<forall>mi. \<not> editingItem slot mi"
  shows "markedItems (UAVListPresentation fmt upd e layout slot sel showIds uavIds) = []"
  using assms
  by (simp add: markedItems_def UAVListPresentation_def UAVListSection_def sectionItems_def
      no_marked_grid no_marked_list Let_def)

text \<open>
  C6, as amended. With mapping editing active, a negative edit cursor shows the
  mapping-editor toolbar and not the per-slot editor toolbar, and no displayed item is
  marked as the slot being edited. For an undefined edit cursor the per-slot editor
  toolbar is not shown and no displayed item is marked either, as for a negative one; but
  the mapping-editor toolbar is not shown for it.
\<close>

theorem edit_cursor_sentinels:
  "(n < 0 \<longrightarrow>
      mappingEditorToolbar
        (UAVListPresentation fmt upd True layout (Some n) sel showIds uavIds)
    \<and> \<not> mappingSlotEditorToolbar
        (UAVListPresentation fmt upd True layout (Some n) sel showIds uavIds)
    \<and> markedItems (UAVListPresentation fmt upd True layout (Some n) sel showIds uavIds) = [])
   \<and> \<not> mappingSlotEditorToolbar
         (UAVListPresentation fmt upd True layout None sel showIds uavIds)
   \<and> markedItems (UAVListPresentation fmt upd True layout None sel showIds uavIds) = []
   \<and> \<not> mappingEditorToolbar (UAVListPresentation fmt upd True layout None sel showIds uavIds)"
proof -
  have tb:
    "mappingEditorToolbar (UAVListPresentation fmt upd True layout slot sel showIds uavIds)
       = lessThanZero slot"
    "mappingSlotEditorToolbar (UAVListPresentation fmt upd True layout slot sel showIds uavIds)
       = atLeastZero slot"
    for slot
    by (simp_all add: UAVListPresentation_def Let_def)
  show ?thesis
    by (simp add: tb lessThanZero_def atLeastZero_def no_marked_presentation
        editingItem_None editingItem_negative)
qed

theorem edit_cursor_sentinels_witness:
  "mappingEditorToolbar
     (UAVListPresentation formatMissionId Pair True ''grid'' (Some (- 1)) [] True
        \<lparr>mainUAVIds =
           [\<lparr>uavId = Some ''A'', missionIndex = Some 0, proposedLabel = None,
             isDeletionMarker = False\<rparr>],
         spareUAVIds = [], extraSlots = []\<rparr>)
   \<and> \<not> mappingSlotEditorToolbar
     (UAVListPresentation formatMissionId Pair True ''grid'' (Some (- 1)) [] True
        \<lparr>mainUAVIds =
           [\<lparr>uavId = Some ''A'', missionIndex = Some 0, proposedLabel = None,
             isDeletionMarker = False\<rparr>],
         spareUAVIds = [], extraSlots = []\<rparr>)
   \<and> markedItems
     (UAVListPresentation formatMissionId Pair True ''grid'' (Some (- 1)) [] True
        \<lparr>mainUAVIds =
           [\<lparr>uavId = Some ''A'', missionIndex = Some 0, proposedLabel = None,
             isDeletionMarker = False\<rparr>],
         spareUAVIds = [], extraSlots = []\<rparr>) = []"
  using
    edit_cursor_sentinels [of "- 1" formatMissionId Pair "''grid''" "[]" True
      "\<lparr>mainUAVIds =
           [\<lparr>uavId = Some ''A'', missionIndex = Some 0, proposedLabel = None,
             isDeletionMarker = False\<rparr>],
         spareUAVIds = [], extraSlots = []\<rparr>"]
  by simp

text \<open>
  The claim as stated fails for the undefined cursor: \<^verbatim>\<open>undefined < 0\<close> is false, and
  the mapping-editor toolbar is not shown.
\<close>

theorem edit_cursor_sentinels_counterexample:
  "\<not> mappingEditorToolbar
       (UAVListPresentation formatMissionId Pair True ''grid'' None [] True
          \<lparr>mainUAVIds = [], spareUAVIds = [], extraSlots = []\<rparr>)"
  by (simp add: UAVListPresentation_def Let_def lessThanZero_def)

section \<open>Results: selecting a section\<close>

lemma set_uniq: "set (uniq seen xs) = set seen \<union> set xs"
  by (induction xs arbitrary: seen) auto

lemma distinct_uniq: "distinct seen \<Longrightarrow> distinct (uniq seen xs)"
  by (induction xs arbitrary: seen) auto

lemma set_lodash_union: "set (lodash_union a b) = set a \<union> set b"
  by (simp add: lodash_union_def set_uniq)

lemma set_lodash_difference: "set (lodash_difference a b) = set a - set b"
  by (auto simp: lodash_difference_def)

lemma foldl_displayedIds:
  "foldl (\<lambda>acc idAndLabel.
             if \<not> isNil (uavId idAndLabel)
             then (case uavId idAndLabel of Some u \<Rightarrow> acc @ [u] | None \<Rightarrow> acc)
             else acc) acc items = acc @ mappedIds (map uavId items)"
  by (induction items arbitrary: acc) (auto simp: mappedIds_def isNil_def split: option.splits)

lemma displayedIdsOf_eq: "displayedIdsOf items = mappedIds (map uavId items)"
  by (simp add: displayedIdsOf_def foldl_displayedIds)

lemma set_mappedIds: "set (mappedIds m) = {u. Some u \<in> set m}"
  by (induction m) (auto simp: mappedIds_def split: option.splits)

lemma set_displayedIdsOf:
  "set (displayedIdsOf items) = {u. \<exists>it \<in> set items. uavId it = Some u}"
  by (force simp: displayedIdsOf_eq set_mappedIds image_iff)

text \<open>
  C2. When the section named by the event has a bucket and a selection info, the handler
  dispatches one \<^verbatim>\<open>setSelectedUAVIds\<close> action. Its selection is computed from the ids
  of the bucket that are not nil: as a set it is the old selection minus those ids when
  the info is checked, and the old selection united with them otherwise.
\<close>

theorem onSelectSection_toggles:
  assumes "getDisplayedIdList st v = Some items" and "getSelectionInfo st v = Some info"
  shows "onSelectSection getDisplayedIdList getSelectedUAVIds getSelectionInfo v st
           = Some (SetSelectedUAVIds
               (if checked info
                then lodash_difference (getSelectedUAVIds st) (displayedIdsOf items)
                else lodash_union (getSelectedUAVIds st) (displayedIdsOf items)))
         \<and> set (displayedIdsOf items) = {u. \<exists>it \<in> set items. uavId it = Some u}
         \<and> set (lodash_difference (getSelectedUAVIds st) (displayedIdsOf items))
             = set (getSelectedUAVIds st) - set (displayedIdsOf items)
         \<and> set (lodash_union (getSelectedUAVIds st) (displayedIdsOf items))
             = set (getSelectedUAVIds st) \<union> set (displayedIdsOf items)"
  using assms
  by (simp add: onSelectSection_def set_lodash_union set_lodash_difference set_displayedIdsOf)

theorem onSelectSection_toggles_witness:
  "onSelectSection
     (\<lambda>st v. if v = ''spareUAVIds''
        then Some [\<lparr>uavId = Some ''B'', missionIndex = None, proposedLabel = None,
                     isDeletionMarker = False\<rparr>,
                   \<lparr>uavId = Some ''C'', missionIndex = None, proposedLabel = None,
                     isDeletionMarker = False\<rparr>]
        else None)
     (\<lambda>st. st)
     (\<lambda>st v. if v = ''spareUAVIds''
        then Some \<lparr>checked = False, disabled = False, indeterminate = True\<rparr> else None)
     ''spareUAVIds'' [''A'', ''B'']
   = Some (SetSelectedUAVIds [''A'', ''B'', ''C''])
   \<and> onSelectSection
     (\<lambda>st v. if v = ''spareUAVIds''
        then Some [\<lparr>uavId = Some ''B'', missionIndex = None, proposedLabel = None,
                     isDeletionMarker = False\<rparr>,
                   \<lparr>uavId = Some ''C'', missionIndex = None, proposedLabel = None,
                     isDeletionMarker = False\<rparr>]
        else None)
     (\<lambda>st. st)
     (\<lambda>st v. if v = ''spareUAVIds''
        then Some \<lparr>checked = True, disabled = False, indeterminate = False\<rparr> else None)
     ''spareUAVIds'' [''A'', ''B'', ''C'']
   = Some (SetSelectedUAVIds [''A''])"
  using
    onSelectSection_toggles [of
      "\<lambda>st v. if v = ''spareUAVIds''
        then Some [\<lparr>uavId = Some ''B'', missionIndex = None, proposedLabel = None,
                     isDeletionMarker = False\<rparr>,
                   \<lparr>uavId = Some ''C'', missionIndex = None, proposedLabel = None,
                     isDeletionMarker = False\<rparr>]
        else None"
      "[''A'', ''B'']" "''spareUAVIds''"
      "[\<lparr>uavId = Some ''B'', missionIndex = None, proposedLabel = None,
          isDeletionMarker = False\<rparr>,
        \<lparr>uavId = Some ''C'', missionIndex = None, proposedLabel = None,
          isDeletionMarker = False\<rparr>]"
      "\<lambda>st v. if v = ''spareUAVIds''
        then Some \<lparr>checked = False, disabled = False, indeterminate = True\<rparr> else None"
      "\<lparr>checked = False, disabled = False, indeterminate = True\<rparr>"
      "\<lambda>st. st"]
    onSelectSection_toggles [of
      "\<lambda>st v. if v = ''spareUAVIds''
        then Some [\<lparr>uavId = Some ''B'', missionIndex = None, proposedLabel = None,
                     isDeletionMarker = False\<rparr>,
                   \<lparr>uavId = Some ''C'', missionIndex = None, proposedLabel = None,
                     isDeletionMarker = False\<rparr>]
        else None"
      "[''A'', ''B'', ''C'']" "''spareUAVIds''"
      "[\<lparr>uavId = Some ''B'', missionIndex = None, proposedLabel = None,
          isDeletionMarker = False\<rparr>,
        \<lparr>uavId = Some ''C'', missionIndex = None, proposedLabel = None,
          isDeletionMarker = False\<rparr>]"
      "\<lambda>st v. if v = ''spareUAVIds''
        then Some \<lparr>checked = True, disabled = False, indeterminate = False\<rparr> else None"
      "\<lparr>checked = True, disabled = False, indeterminate = False\<rparr>"
      "\<lambda>st. st"]
  by (simp add: lodash_union_def lodash_difference_def displayedIdsOf_def isNil_def)

section \<open>Results: the mission mapping and the displayed buckets\<close>

lemma count_mappedIds: "count_list (mappedIds m) u = count_list m (Some u)"
  by (induction m) (auto simp: mappedIds_def split: option.splits)

lemma distinct_count_list: "distinct xs \<longleftrightarrow> (\<forall>x. count_list xs x \<le> 1)"
proof (induction xs)
  case Nil
  show ?case by simp
next
  case (Cons a xs)
  have "(\<forall>x. count_list (a # xs) x \<le> 1) \<longleftrightarrow>
          count_list xs a = 0 \<and> (\<forall>x. count_list xs x \<le> 1)"
    by (auto simp: le_Suc_eq)
  then show ?case
    using Cons.IH by (simp add: count_list_0_iff)
qed

lemma wellFormed_count: "wellFormed m \<longleftrightarrow> (\<forall>u. count_list m (Some u) \<le> 1)"
  by (simp add: wellFormed_def distinct_count_list count_mappedIds)

lemma length_vacate: "length (vacate u m) = length m"
  by (simp add: vacate_def)

lemma nth_vacate:
  "k < length m \<Longrightarrow> vacate u m ! k = (if m ! k = Some u then None else m ! k)"
  by (simp add: vacate_def)

lemma mappedIds_vacate: "mappedIds (vacate u m) = filter (\<lambda>x. x \<noteq> u) (mappedIds m)"
  by (induction m) (auto simp: mappedIds_def vacate_def split: option.splits)

lemma vacate_free: "Some u \<notin> set (vacate u m)"
  by (auto simp: vacate_def)

lemma mappedIds_append: "mappedIds (a @ b) = mappedIds a @ mappedIds b"
  by (simp add: mappedIds_def)

lemma mappedIds_Cons:
  "mappedIds (s # m) = (case s of None \<Rightarrow> [] | Some u \<Rightarrow> [u]) @ mappedIds m"
  by (simp add: mappedIds_def)

lemma mappedIds_Nil: "mappedIds [] = []"
  by (simp add: mappedIds_def)

lemma mappedIds_empty_slots: "mappedIds (replicate n None) = []"
  by (induction n) (simp_all add: mappedIds_def)

lemma mappedIds_update:
  assumes "i < length m"
  shows "mappedIds (m[i := s]) =
    mappedIds (take i m) @ (case s of None \<Rightarrow> [] | Some u \<Rightarrow> [u]) @ mappedIds (drop (Suc i) m)"
proof -
  have "m[i := s] = take i m @ s # drop (Suc i) m"
    using assms by (rule upd_conv_take_nth_drop)
  then show ?thesis
    by (simp add: mappedIds_append mappedIds_Cons)
qed

lemma wellFormed_update:
  assumes "wellFormed m" and "i < length m" and "Some u \<notin> set m"
  shows "wellFormed (m[i := Some u])"
proof -
  have "mappedIds m =
      mappedIds (take i m) @ (case m ! i of None \<Rightarrow> [] | Some u \<Rightarrow> [u])
        @ mappedIds (drop (Suc i) m)"
    using mappedIds_update [OF assms(2), of "m ! i"] by simp
  then have d: "distinct (mappedIds (take i m) @ mappedIds (drop (Suc i) m))"
    using assms(1) by (auto simp: wellFormed_def)
  have "u \<notin> set (mappedIds (take i m))" "u \<notin> set (mappedIds (drop (Suc i) m))"
    using assms(3) by (auto simp: set_mappedIds dest: in_set_takeD in_set_dropD)
  with d show ?thesis
    using assms(2) by (auto simp: wellFormed_def mappedIds_update)
qed

lemma wellFormed_grow:
  assumes "wellFormed m" and "Some u \<notin> set m"
  shows "wellFormed (m @ replicate n None @ [Some u])"
  using assms
  by (simp add: wellFormed_def mappedIds_append mappedIds_empty_slots mappedIds_Cons
      mappedIds_Nil set_mappedIds)

lemma wellFormed_assignSlot:
  "wellFormed m \<Longrightarrow> Some u \<notin> set m \<Longrightarrow> wellFormed (assignSlot i (Some u) m)"
  by (simp add: assignSlot_def wellFormed_update wellFormed_grow)

lemma wellFormed_vacate: "wellFormed m \<Longrightarrow> wellFormed (vacate u m)"
  by (simp add: wellFormed_def mappedIds_vacate)

lemma wellFormed_adjust: "wellFormed m \<Longrightarrow> wellFormed (adjustMissionMapping u to m)"
  by (cases to)
     (simp_all add: adjustMissionMapping_def wellFormed_vacate wellFormed_assignSlot vacate_free)

lemma reachable_wellFormed: "reachable m0 m \<Longrightarrow> wellFormed m0 \<Longrightarrow> wellFormed m"
  by (induction rule: reachable.induct) (auto intro: wellFormed_adjust)

lemma adjust_in_range:
  "i < length m \<Longrightarrow> adjustMissionMapping u (Some i) m = (vacate u m)[i := Some u]"
  by (simp add: adjustMissionMapping_def assignSlot_def length_vacate)

lemma set_spare_ids:
  "set (displayedIdsOf (displayedSpareUAVIds st)) =
     {u \<in> set (st_fleet st). Some u \<notin> set (st_mapping st)}"
  by (auto simp: set_displayedIdsOf displayedSpareUAVIds_def)

text \<open>In a well-formed mapping the UAV of a slot is in no other slot.\<close>

lemma wellFormed_once:
  assumes wf: "wellFormed m" and i: "i < length m" and occ: "m ! i = Some b"
    and k: "k < length m" "k \<noteq> i"
  shows "m ! k \<noteq> Some b"
proof
  assume kb: "m ! k = Some b"
  have sub: "{i, k} \<subseteq> {j. j < length m \<and> Some b = m ! j}"
    using i occ k kb by auto
  have "card {i, k} = 2" using k(2) by simp
  moreover have "card {i, k} \<le> card {j. j < length m \<and> Some b = m ! j}"
    by (rule card_mono) (use sub in auto)
  moreover have "length (filter ((=) (Some b)) m) = card {j. j < length m \<and> Some b = m ! j}"
    by (rule length_filter_conv_card)
  ultimately have "2 \<le> count_list m (Some b)"
    by (simp add: count_list_eq_length_filter)
  moreover have "count_list m (Some b) \<le> 1"
    using wf by (simp add: wellFormed_count)
  ultimately show False by simp
qed

text \<open>
  C3, as amended. A drop of UAV \<open>a\<close> onto slot \<open>i\<close> of a well-formed mapping is one
  transition of the store: the state after it is the reducer applied once to the state
  before it, and the fleet, the cursor and the selection are untouched. In the new mapping
  slot \<open>i\<close> holds \<open>a\<close>, every other slot that held \<open>a\<close> is empty and every other slot is
  as before, so \<open>a\<close> is not among the spare ids. If the slot held a different UAV \<open>b\<close>,
  then \<open>b\<close> is in no slot of the new mapping, and \<open>b\<close> is among the spare ids when it is a
  known fleet id.
\<close>

theorem adjustMissionMapping_moves:
  assumes wf: "wellFormed (st_mapping st)" and i: "i < length (st_mapping st)"
    and st': "st' = dispatchAdjustMissionMapping (runDrop (DropOnto (Some i)) a) st"
  shows "st_mapping st' = adjustMissionMapping a (Some i) (st_mapping st)
       \<and> st_fleet st' = st_fleet st \<and> st_cursor st' = st_cursor st
       \<and> st_selection st' = st_selection st
       \<and> length (st_mapping st') = length (st_mapping st)
       \<and> st_mapping st' ! i = Some a
       \<and> (\<forall>k < length (st_mapping st). k \<noteq> i \<longrightarrow>
             st_mapping st' ! k =
               (if st_mapping st ! k = Some a then None else st_mapping st ! k))
       \<and> a \<notin> set (displayedIdsOf (displayedSpareUAVIds st'))
       \<and> (st_mapping st ! i = Some b \<and> b \<noteq> a \<longrightarrow>
             Some b \<notin> set (st_mapping st')
           \<and> (b \<in> set (st_fleet st) \<longrightarrow>
                b \<in> set (displayedIdsOf (displayedSpareUAVIds st'))))"
proof -
  let ?m = "st_mapping st"
  let ?m' = "adjustMissionMapping a (Some i) ?m"
  have step: "st_mapping st' = ?m'" "st_fleet st' = st_fleet st"
      "st_cursor st' = st_cursor st" "st_selection st' = st_selection st"
    by (simp_all add: st' dispatchAdjustMissionMapping_def)
  have upd: "?m' = (vacate a ?m)[i := Some a]"
    using i by (rule adjust_in_range)
  have len: "length ?m' = length ?m"
    by (simp add: upd length_vacate)
  have at_i: "?m' ! i = Some a"
    using i by (simp add: upd length_vacate)
  have others: "\<forall>k < length ?m. k \<noteq> i \<longrightarrow> ?m' ! k = (if ?m ! k = Some a then None else ?m ! k)"
    by (simp add: upd nth_vacate)
  have a_in: "Some a \<in> set ?m'"
    using at_i i len by (metis nth_mem)
  have b_gone: "Some b \<notin> set ?m'" if occ: "?m ! i = Some b" and ne: "b \<noteq> a"
  proof
    assume "Some b \<in> set ?m'"
    then obtain k where k: "k < length ?m" "?m' ! k = Some b"
      using len by (metis in_set_conv_nth)
    show False
    proof (cases "k = i")
      case True
      with k at_i ne show False by simp
    next
      case False
      with k others have "(if ?m ! k = Some a then None else ?m ! k) = Some b" by simp
      then have "?m ! k = Some b" by (simp split: if_splits)
      with wellFormed_once [OF wf i occ k(1) False] show False by simp
    qed
  qed
  show ?thesis
    using at_i len others b_gone a_in by (simp add: step set_spare_ids)
qed

theorem adjustMissionMapping_moves_witness:
  "st_mapping (dispatchAdjustMissionMapping (runDrop (DropOnto (Some 1)) ''A'')
        \<lparr>st_fleet = [''A'', ''B'', ''C''], st_mapping = [Some ''A'', Some ''B'', None],
         st_cursor = Some 1, st_selection = []\<rparr>)
     = [None, Some ''A'', None]
   \<and> ''B'' \<in> set (displayedIdsOf (displayedSpareUAVIds
        (dispatchAdjustMissionMapping (runDrop (DropOnto (Some 1)) ''A'')
           \<lparr>st_fleet = [''A'', ''B'', ''C''], st_mapping = [Some ''A'', Some ''B'', None],
            st_cursor = Some 1, st_selection = []\<rparr>)))
   \<and> ''A'' \<notin> set (displayedIdsOf (displayedSpareUAVIds
        (dispatchAdjustMissionMapping (runDrop (DropOnto (Some 1)) ''A'')
           \<lparr>st_fleet = [''A'', ''B'', ''C''], st_mapping = [Some ''A'', Some ''B'', None],
            st_cursor = Some 1, st_selection = []\<rparr>)))"
proof -
  let ?st = "\<lparr>st_fleet = [''A'', ''B'', ''C''], st_mapping = [Some ''A'', Some ''B'', None],
              st_cursor = Some 1, st_selection = []\<rparr>"
  have wf: "wellFormed (st_mapping ?st)"
    by (simp add: wellFormed_def mappedIds_def)
  have i: "Suc 0 < length (st_mapping ?st)" by simp
  have m: "adjustMissionMapping ''A'' (Some (Suc 0)) [Some ''A'', Some ''B'', None]
      = [None, Some ''A'', None]"
    by (simp add: adjustMissionMapping_def assignSlot_def vacate_def)
  show ?thesis
    using adjustMissionMapping_moves [OF wf i refl, of "''A''" "''B''"]
    by (simp add: m)
qed

text \<open>
  The claim as stated fails when the displaced UAV is not a known fleet id: it is in no
  slot after the move, but the spare bucket holds fleet ids only.
\<close>

theorem adjustMissionMapping_moves_counterexample:
  "st_mapping (dispatchAdjustMissionMapping (runDrop (DropOnto (Some 0)) ''A'')
        \<lparr>st_fleet = [''A''], st_mapping = [Some ''B''], st_cursor = Some 0,
         st_selection = []\<rparr>) = [Some ''A'']
   \<and> ''B'' \<notin> set (displayedIdsOf (displayedSpareUAVIds
        (dispatchAdjustMissionMapping (runDrop (DropOnto (Some 0)) ''A'')
           \<lparr>st_fleet = [''A''], st_mapping = [Some ''B''], st_cursor = Some 0,
            st_selection = []\<rparr>)))"
  by (simp add: dispatchAdjustMissionMapping_def adjustMissionMapping_def assignSlot_def
      vacate_def set_spare_ids)

text \<open>
  C4. From a well-formed mapping, every mapping that a finite sequence of
  \<^verbatim>\<open>adjustMissionMapping\<close> calls leads to, whatever the UAV ids and the targets of the
  calls (a slot of the mapping, an index past its end, or no slot), holds every UAV
  identifier in at most one slot.
\<close>

theorem mapping_invariant:
  assumes "wellFormed m0" and "reachable m0 m"
  shows "count_list m (Some u) \<le> 1"
  using reachable_wellFormed [OF assms(2,1)] by (simp add: wellFormed_count)

theorem mapping_invariant_witness:
  "adjustMissionMapping ''B'' None
     (adjustMissionMapping ''A'' (Some 1) (adjustMissionMapping ''B'' (Some 0) [Some ''A'', None]))
     = [None, Some ''A'']
   \<and> reachable [Some ''A'', None]
       (adjustMissionMapping ''B'' None
          (adjustMissionMapping ''A'' (Some 1)
             (adjustMissionMapping ''B'' (Some 0) [Some ''A'', None])))
   \<and> count_list
       (adjustMissionMapping ''B'' None
          (adjustMissionMapping ''A'' (Some 1)
             (adjustMissionMapping ''B'' (Some 0) [Some ''A'', None])))
       (Some ''A'') \<le> 1
   \<and> count_list (adjustMissionMapping ''A'' (Some 3) [Some ''A'', None]) (Some ''A'') \<le> 1"
proof -
  have wf: "wellFormed [Some ''A'', None]"
    by (simp add: wellFormed_def mappedIds_def)
  have r3: "reachable [Some ''A'', None]
       (adjustMissionMapping ''B'' None
          (adjustMissionMapping ''A'' (Some 1)
             (adjustMissionMapping ''B'' (Some 0) [Some ''A'', None])))"
    by (intro reachable.adjust reachable.start)
  have r1: "reachable [Some ''A'', None] (adjustMissionMapping ''A'' (Some 3) [Some ''A'', None])"
    by (intro reachable.adjust reachable.start)
  have v: "adjustMissionMapping ''B'' None
     (adjustMissionMapping ''A'' (Some (Suc 0))
        (adjustMissionMapping ''B'' (Some 0) [Some ''A'', None]))
     = [None, Some ''A'']"
    by (simp add: adjustMissionMapping_def assignSlot_def vacate_def)
  show ?thesis
    using mapping_invariant [OF wf r3, of "''A''"] mapping_invariant [OF wf r1, of "''A''"] r3 v
    by simp
qed

text \<open>
  C5, as amended. The main bucket has exactly one entry per slot of the mapping, the entry
  of slot \<open>i\<close> being \<open>(mapping[i], i, undefined)\<close>, so an empty slot gives the placeholder
  \<open>(undefined, i, undefined)\<close>. The spare ids and the mapped ids are disjoint, and the
  spare ids together with the mapped ids that are known fleet ids are exactly the fleet;
  they partition the fleet when every mapped id is a known fleet id.
\<close>

theorem displayed_buckets:
  "length (displayedMainUAVIds st) = length (st_mapping st)
   \<and> (\<forall>i < length (st_mapping st).
        displayedMainUAVIds st ! i =
          \<lparr>uavId = st_mapping st ! i, missionIndex = Some i, proposedLabel = None,
           isDeletionMarker = False\<rparr>)
   \<and> set (displayedIdsOf (displayedSpareUAVIds st)) \<inter> set (mappedIds (st_mapping st)) = {}
   \<and> set (displayedIdsOf (displayedSpareUAVIds st))
        \<union> (set (mappedIds (st_mapping st)) \<inter> set (st_fleet st)) = set (st_fleet st)
   \<and> (set (mappedIds (st_mapping st)) \<subseteq> set (st_fleet st) \<longrightarrow>
        set (displayedIdsOf (displayedSpareUAVIds st)) \<union> set (mappedIds (st_mapping st))
          = set (st_fleet st))"
  by (auto simp: displayedMainUAVIds_def set_spare_ids set_mappedIds nth_enumerate_eq)

theorem displayed_buckets_witness:
  "displayedMainUAVIds
     \<lparr>st_fleet = [''A'', ''B'', ''C''], st_mapping = [Some ''A'', None],
      st_cursor = None, st_selection = []\<rparr>
   = [\<lparr>uavId = Some ''A'', missionIndex = Some 0, proposedLabel = None,
       isDeletionMarker = False\<rparr>,
      \<lparr>uavId = None, missionIndex = Some 1, proposedLabel = None,
       isDeletionMarker = False\<rparr>]
   \<and> set (displayedIdsOf (displayedSpareUAVIds
        \<lparr>st_fleet = [''A'', ''B'', ''C''], st_mapping = [Some ''A'', None],
         st_cursor = None, st_selection = []\<rparr>))
       \<union> set (mappedIds [Some ''A'', None]) = {''A'', ''B'', ''C''}"
  using displayed_buckets [of
     "\<lparr>st_fleet = [''A'', ''B'', ''C''], st_mapping = [Some ''A'', None],
       st_cursor = None, st_selection = []\<rparr>"]
  by (auto simp: displayedMainUAVIds_def set_mappedIds)

text \<open>
  The claim as stated fails when the mapping holds an id that is not in the fleet: the
  spare ids and the mapped ids together are then not the fleet.
\<close>

theorem displayed_buckets_counterexample:
  "set (displayedIdsOf (displayedSpareUAVIds
          \<lparr>st_fleet = [''A''], st_mapping = [Some ''B''], st_cursor = None,
           st_selection = []\<rparr>))
     \<union> set (mappedIds [Some ''B''])
   \<noteq> set [''A'']"
  by (simp add: set_spare_ids set_mappedIds)

end
